theory Spec2Isabelle
  imports Complex_Main
begin

section \<open>Floating-point values\<close>

text \<open>
  The numeric code of \<^verbatim>\<open>price_prediction.py\<close> runs on IEEE-754 values (Python floats,
  numpy and torch arrays). A value is either finite, one of the two infinities, or NaN.
  The special values are modelled as the code meets them: numpy and torch do not raise on
  an invalid operation, they return NaN or an infinity (and print a warning). Finite
  arithmetic is modelled exactly, over the reals: rounding, overflow to infinity and the
  sign of zero are not part of the model.
\<close>

datatype fp = Fin real | PInf | NInf | NaN

fun fneg :: "fp \<Rightarrow> fp" where
  "fneg (Fin a) = Fin (- a)"
| "fneg PInf = NInf"
| "fneg NInf = PInf"
| "fneg NaN = NaN"

fun fadd :: "fp \<Rightarrow> fp \<Rightarrow> fp" where
  "fadd (Fin a) (Fin b) = Fin (a + b)"
| "fadd NaN y = NaN"
| "fadd x NaN = NaN"
| "fadd PInf NInf = NaN"
| "fadd NInf PInf = NaN"
| "fadd PInf y = PInf"
| "fadd x PInf = PInf"
| "fadd NInf y = NInf"
| "fadd x NInf = NInf"

definition fsub :: "fp \<Rightarrow> fp \<Rightarrow> fp" where
  "fsub x y = fadd x (fneg y)"

fun fmul :: "fp \<Rightarrow> fp \<Rightarrow> fp" where
  "fmul (Fin a) (Fin b) = Fin (a * b)"
| "fmul NaN y = NaN"
| "fmul x NaN = NaN"
| "fmul (Fin a) PInf = (if a = 0 then NaN else if 0 < a then PInf else NInf)"
| "fmul (Fin a) NInf = (if a = 0 then NaN else if 0 < a then NInf else PInf)"
| "fmul PInf (Fin b) = (if b = 0 then NaN else if 0 < b then PInf else NInf)"
| "fmul NInf (Fin b) = (if b = 0 then NaN else if 0 < b then NInf else PInf)"
| "fmul PInf PInf = PInf"
| "fmul NInf NInf = PInf"
| "fmul PInf NInf = NInf"
| "fmul NInf PInf = NInf"

fun fdiv :: "fp \<Rightarrow> fp \<Rightarrow> fp" where
  "fdiv (Fin a) (Fin b) =
     (if b \<noteq> 0 then Fin (a / b)
      else if a = 0 then NaN else if 0 < a then PInf else NInf)"
| "fdiv NaN y = NaN"
| "fdiv x NaN = NaN"
| "fdiv (Fin a) PInf = Fin 0"
| "fdiv (Fin a) NInf = Fin 0"
| "fdiv PInf (Fin b) = (if 0 \<le> b then PInf else NInf)"
| "fdiv NInf (Fin b) = (if 0 \<le> b then NInf else PInf)"
| "fdiv PInf PInf = NaN"
| "fdiv PInf NInf = NaN"
| "fdiv NInf PInf = NaN"
| "fdiv NInf NInf = NaN"

fun fsqrt :: "fp \<Rightarrow> fp" where
  "fsqrt (Fin a) = (if a < 0 then NaN else Fin (sqrt a))"
| "fsqrt PInf = PInf"
| "fsqrt NInf = NaN"
| "fsqrt NaN = NaN"

text \<open>\<^verbatim>\<open>np.log\<close>: the logarithm of zero is minus infinity, of a negative number NaN.\<close>

fun flog :: "fp \<Rightarrow> fp" where
  "flog (Fin a) = (if a < 0 then NaN else if a = 0 then NInf else Fin (ln a))"
| "flog PInf = PInf"
| "flog NInf = NaN"
| "flog NaN = NaN"

text \<open>\<^verbatim>\<open>torch.sigmoid\<close>, the logistic function.\<close>

fun sigmoid :: "fp \<Rightarrow> fp" where
  "sigmoid (Fin a) = Fin (1 / (1 + exp (- a)))"
| "sigmoid PInf = Fin 1"
| "sigmoid NInf = Fin 0"
| "sigmoid NaN = NaN"

text \<open>Comparison: every comparison with NaN is false.\<close>

fun fless :: "fp \<Rightarrow> fp \<Rightarrow> bool" where
  "fless (Fin a) (Fin b) = (a < b)"
| "fless NaN y = False"
| "fless x NaN = False"
| "fless x NInf = False"
| "fless PInf y = False"
| "fless NInf y = True"
| "fless x PInf = True"

definition fgreater :: "fp \<Rightarrow> fp \<Rightarrow> bool" where
  "fgreater x y = fless y x"

fun is_finite :: "fp \<Rightarrow> bool" where
  "is_finite (Fin a) = True"
| "is_finite PInf = False"
| "is_finite NInf = False"
| "is_finite NaN = False"

section \<open>The numpy and torch operations the module calls\<close>

text \<open>\<^verbatim>\<open>np.sum\<close>: the sum of no element is \<open>0.0\<close>.\<close>

definition np_sum :: "fp list \<Rightarrow> fp" where
  "np_sum xs = foldl fadd (Fin 0) xs"

text \<open>\<^verbatim>\<open>np.mean\<close>: the sum over the count; the mean of an empty array is \<open>0.0 / 0 = NaN\<close>.\<close>

definition np_mean :: "fp list \<Rightarrow> fp" where
  "np_mean xs = fdiv (np_sum xs) (Fin (real (length xs)))"

text \<open>\<^verbatim>\<open>np.std\<close> with its default \<open>ddof = 0\<close>: the root of the mean squared deviation.\<close>

definition np_std :: "fp list \<Rightarrow> fp" where
  "np_std xs =
     (let m = np_mean xs; d = map (\<lambda>x. fsub x m) xs
      in fsqrt (np_mean (map (\<lambda>x. fmul x x) d)))"

text \<open>\<^verbatim>\<open>np.diff\<close>: \<open>out[i] = a[i+1] - a[i]\<close>, one element fewer (none of an empty array).\<close>

definition np_diff :: "fp list \<Rightarrow> fp list" where
  "np_diff xs = map (\<lambda>(a, b). fsub b a) (zip xs (tl xs))"

definition np_log :: "fp list \<Rightarrow> fp list" where
  "np_log xs = map flog xs"

definition np_zeros :: "nat \<Rightarrow> fp list" where
  "np_zeros n = replicate n (Fin 0)"

text \<open>
  \<^verbatim>\<open>Tensor.std()\<close> over all elements, with torch's default Bessel correction: the sum of
  squared deviations over \<open>max(0, n - 1)\<close>. For one element that is \<open>0.0 / 0 = NaN\<close>.
\<close>

definition torch_std :: "fp list \<Rightarrow> fp" where
  "torch_std xs =
     (let m = np_mean xs; d = map (\<lambda>x. fsub x m) xs
      in fsqrt (fdiv (np_sum (map (\<lambda>x. fmul x x) d)) (Fin (real (length xs - 1)))))"

section \<open>Token data\<close>

text \<open>
  \<^verbatim>\<open>token_data\<close> is read with \<^verbatim>\<open>token_data.get(key, [])\<close> for the three histories and with
  \<^verbatim>\<open>token_data.metadata\<close> by the route: a mapping from field names to series, with metadata.
\<close>

record token_data =
  metadata :: "(string \<times> string) list"
  series :: "string \<rightharpoonup> fp list"

definition get_series :: "token_data \<Rightarrow> string \<Rightarrow> fp list" where
  "get_series td k = (case series td k of None \<Rightarrow> [] | Some xs \<Rightarrow> xs)"

section \<open>Trend analysis and volatility\<close>

text \<open>\<^verbatim>\<open>xs[-5:]\<close>: the last five entries, or all of them when there are fewer.\<close>

definition last5 :: "fp list \<Rightarrow> fp list" where
  "last5 xs = drop (length xs - 5) xs"

definition recent_trend :: "fp list \<Rightarrow> fp" where
  "recent_trend price_history = np_mean (np_diff (last5 price_history))"

definition analyze_trends :: "token_data \<Rightarrow> string list" where
  "analyze_trends td =
     (let price_history = get_series td ''price_history'' in
      if length price_history > 0 then
        (let rt = recent_trend price_history in
         if fgreater rt (Fin 0) then [''Upward Trend'']
         else if fless rt (Fin 0) then [''Downward Trend'']
         else [''Sideways Movement''])
      else [])"

definition calculate_volatility :: "token_data \<Rightarrow> fp" where
  "calculate_volatility td =
     (let price_history = get_series td ''price_history'' in
      if length price_history > 1 then
        (let returns = np_diff (np_log price_history)
         in fmul (np_std returns) (Fin (sqrt 365)))
      else Fin 0)"

text \<open>A record that has a price history only.\<close>

definition prices :: "fp list \<Rightarrow> token_data" where
  "prices ps = \<lparr>metadata = [], series = [''price_history'' \<mapsto> ps]\<rparr>"

section \<open>Exceptions and result documents\<close>

text \<open>
  Every failure of the Python code is a value: \<open>Inl e\<close> is the exception \<open>e\<close> raised,
  \<open>Inr v\<close> the value returned. All the exceptions below derive from \<^verbatim>\<open>Exception\<close>, so an
  \<^verbatim>\<open>except Exception\<close> clause catches each of them.
\<close>

datatype exn =
    ValueError string
  | RuntimeError string
  | IndexError string
  | TypeError string
  | HTTPException nat string
  | OtherException string

text \<open>\<^verbatim>\<open>str(e)\<close>: the text the exception carries.\<close>

fun str_exn :: "exn \<Rightarrow> string" where
  "str_exn (ValueError m) = m"
| "str_exn (RuntimeError m) = m"
| "str_exn (IndexError m) = m"
| "str_exn (TypeError m) = m"
| "str_exn (HTTPException c m) = m"
| "str_exn (OtherException m) = m"

text \<open>The values of a result dictionary, and the dictionary with its keys in order.\<close>

datatype pyval = PFloat fp | PStr string | PStrList "string list"

type_synonym pydict = "(string \<times> pyval) list"

fun is_float :: "pyval \<Rightarrow> bool" where
  "is_float (PFloat x) = True"
| "is_float (PStr s) = False"
| "is_float (PStrList l) = False"

fun is_str :: "pyval \<Rightarrow> bool" where
  "is_str (PFloat x) = False"
| "is_str (PStr s) = True"
| "is_str (PStrList l) = False"

fun is_str_list :: "pyval \<Rightarrow> bool" where
  "is_str_list (PFloat x) = False"
| "is_str_list (PStr s) = False"
| "is_str_list (PStrList l) = True"

text \<open>
  A well-formed PredictionResult has exactly the four keys, with two floats, a list of
  labels and a float; a well-formed ErrorResult has exactly the two keys, both strings.
\<close>

definition is_PredictionResult :: "pydict \<Rightarrow> bool" where
  "is_PredictionResult d \<longleftrightarrow>
     map fst d = [''predicted_price'', ''confidence_score'', ''price_trends'', ''volatility_index'']
     \<and> map (\<lambda>(k, v). is_float v) d = [True, True, False, True]
     \<and> map (\<lambda>(k, v). is_str_list v) d = [False, False, True, False]"

definition is_ErrorResult :: "pydict \<Rightarrow> bool" where
  "is_ErrorResult d \<longleftrightarrow>
     map fst d = [''error'', ''details''] \<and> map (\<lambda>(k, v). is_str v) d = [True, True]"

section \<open>Feature extraction\<close>

definition epsilon :: real where
  "epsilon = 1 / 10 ^ 8"

text \<open>The divisor of \<^verbatim>\<open>_normalize\<close>: \<^verbatim>\<open>np.std(data) + 1e-8\<close>.\<close>

definition normalize_divisor :: "fp list \<Rightarrow> fp" where
  "normalize_divisor data = fadd (np_std data) (Fin epsilon)"

definition normalize_np :: "fp list \<Rightarrow> fp list" where
  "normalize_np data =
     (if length data = 0 then np_zeros 10
      else map (\<lambda>x. fdiv (fsub x (np_mean data)) (normalize_divisor data)) data)"

text \<open>
  \<^verbatim>\<open>np.column_stack\<close> of one-dimensional arrays: each array becomes a column, and row \<open>i\<close>
  of the result holds element \<open>i\<close> of every array. Arrays of different lengths cannot
  be stacked: numpy raises ValueError.
\<close>

definition column_stack :: "fp list list \<Rightarrow> exn + fp list list" where
  "column_stack cols =
     (case cols of
        [] \<Rightarrow> Inl (ValueError ''need at least one array to concatenate'')
      | c # cs \<Rightarrow>
          if list_all (\<lambda>d. length d = length c) cs
          then Inr (map (\<lambda>i. map (\<lambda>col. col ! i) cols) [0..<length c])
          else Inl (ValueError ''all the input array dimensions except for the concatenation axis must match exactly''))"

text \<open>
  A three-dimensional tensor is a list (batch) of matrices, a matrix a list of rows. Its
  shape is read off the first entries; every tensor built here is rectangular and has
  no empty dimension.
\<close>

type_synonym tensor3 = "fp list list list"

definition shape3 :: "tensor3 \<Rightarrow> nat list" where
  "shape3 t =
     [length t,
      (case t of [] \<Rightarrow> 0 | m # ms \<Rightarrow> length m),
      (case t of [] \<Rightarrow> 0 | m # ms \<Rightarrow> (case m of [] \<Rightarrow> 0 | r # rs \<Rightarrow> length r))]"

text \<open>
  \<^verbatim>\<open>torch.FloatTensor(features).unsqueeze(0)\<close> puts the matrix into a batch of one (the
  conversion to single precision rounds the entries and leaves the shape alone).
\<close>

definition extract_features :: "token_data \<Rightarrow> exn + tensor3" where
  "extract_features td =
     (let price_history = get_series td ''price_history'';
          volume_history = get_series td ''volume_history'';
          liquidity_data = get_series td ''liquidity_data''
      in case column_stack [normalize_np price_history,
                            normalize_np volume_history,
                            normalize_np liquidity_data] of
           Inl e \<Rightarrow> Inl e
         | Inr features \<Rightarrow> Inr [features])"

section \<open>The scoring model and the prediction\<close>

text \<open>
  \<^verbatim>\<open>LSTM.forward\<close>: \<^verbatim>\<open>nn.LSTM\<close> refuses an input whose last dimension is not its
  \<^verbatim>\<open>input_size\<close> (RuntimeError); otherwise the last time step of each sequence goes through
  the linear layer, which gives one number per sequence: a tensor of shape \<open>[batch, 1]\<close>.
  The weights are whatever the constructor drew; the network is the parameter \<open>net\<close>.
\<close>

definition LSTM_forward :: "nat \<Rightarrow> (fp list list \<Rightarrow> fp) \<Rightarrow> tensor3 \<Rightarrow> exn + fp list list" where
  "LSTM_forward input_size net x =
     (if shape3 x ! 2 \<noteq> input_size
      then Inl (RuntimeError ''input.size(-1) must be equal to input_size'')
      else Inr (map (\<lambda>s. [net s]) x))"

text \<open>\<^verbatim>\<open>prediction.numpy()[0][0]\<close>, which raises IndexError out of range.\<close>

definition first_entry :: "fp list list \<Rightarrow> exn + fp" where
  "first_entry p =
     (case p of
        [] \<Rightarrow> Inl (IndexError ''index 0 is out of bounds'')
      | r # rs \<Rightarrow> (case r of
                     [] \<Rightarrow> Inl (IndexError ''index 0 is out of bounds'')
                   | v # vs \<Rightarrow> Inr v))"

definition calculate_confidence :: "fp list list \<Rightarrow> fp" where
  "calculate_confidence prediction = sigmoid (torch_std (concat prediction))"

text \<open>The body of the \<^verbatim>\<open>try\<close> block of \<^verbatim>\<open>predict\<close>.\<close>

definition predict_try :: "(tensor3 \<Rightarrow> exn + fp list list) \<Rightarrow> token_data \<Rightarrow> exn + pydict" where
  "predict_try model td =
     (case extract_features td of
        Inl e \<Rightarrow> Inl e
      | Inr features \<Rightarrow>
          (case model features of
             Inl e \<Rightarrow> Inl e
           | Inr prediction \<Rightarrow>
               (case first_entry prediction of
                  Inl e \<Rightarrow> Inl e
                | Inr p \<Rightarrow>
                    Inr [(''predicted_price'', PFloat p),
                         (''confidence_score'', PFloat (calculate_confidence prediction)),
                         (''price_trends'', PStrList (analyze_trends td)),
                         (''volatility_index'', PFloat (calculate_volatility td))])))"

text \<open>
  \<^verbatim>\<open>predict\<close>: the \<^verbatim>\<open>except Exception\<close> clause turns every exception of the body into the
  error dictionary. \<open>Inl\<close> would be an exception that leaves \<^verbatim>\<open>predict\<close>.
\<close>

definition predict :: "(tensor3 \<Rightarrow> exn + fp list list) \<Rightarrow> token_data \<Rightarrow> exn + pydict" where
  "predict model td =
     (case predict_try model td of
        Inl e \<Rightarrow> Inr [(''error'', PStr ''Price prediction failed''),
                      (''details'', PStr (str_exn e))]
      | Inr d \<Rightarrow> Inr d)"

text \<open>The model \<^verbatim>\<open>PricePredictionModel.__init__\<close> builds: \<^verbatim>\<open>LSTM(input_size=10, ...)\<close>.\<close>

definition price_model :: "(fp list list \<Rightarrow> fp) \<Rightarrow> tensor3 \<Rightarrow> exn + fp list list" where
  "price_model net = LSTM_forward 10 net"

section \<open>The analysis route\<close>

text \<open>
  \<^verbatim>\<open>analyze_token\<close> of \<^verbatim>\<open>app.py\<close>. The blockchain clients, the risk and behaviour models
  and the clock are imported from modules outside the two source files: they are the
  fields of \<open>collaborators\<close>, each free to return a value or to raise.

  The field \<open>unsupported\<close> is the exception that line 64 raises,
  \<^verbatim>\<open>raise HTTPException(status_code=400, message="Unsupported blockchain type")\<close>:
  FastAPI's constructor takes \<^verbatim>\<open>detail\<close>, not \<^verbatim>\<open>message\<close>, so Python raises a TypeError
  while building the exception; had the call been accepted it would be
  \<open>HTTPException 400\<close>. Either way it is raised inside the \<^verbatim>\<open>try\<close> block.
\<close>

record analysis_request =
  token_address :: string
  chain_type :: string
  analysis_type :: "string list"

record analysis_response =
  token_metadata :: "(string \<times> string) list"
  market_performance :: pydict
  risk_assessment :: pydict
  recommendations :: "string list"
  timestamp :: nat

record collaborators =
  solana_client :: "string \<Rightarrow> exn + token_data"
  ethereum_client :: "string \<Rightarrow> exn + token_data"
  cosmos_client :: "string \<Rightarrow> exn + token_data"
  net :: "fp list list \<Rightarrow> fp"
  risk_evaluate :: "token_data \<Rightarrow> exn + pydict"
  behavior_analyze :: "token_data \<Rightarrow> exn + string list"
  now :: nat
  unsupported :: exn

definition clients :: "collaborators \<Rightarrow> string \<rightharpoonup> (string \<Rightarrow> exn + token_data)" where
  "clients c = map_of [(''solana'', solana_client c),
                       (''ethereum'', ethereum_client c),
                       (''cosmos'', cosmos_client c)]"

text \<open>The body of the \<^verbatim>\<open>try\<close> block of the route.\<close>

definition analyze_try :: "collaborators \<Rightarrow> analysis_request \<Rightarrow> exn + analysis_response" where
  "analyze_try c request =
     (case clients c (chain_type request) of
        None \<Rightarrow> Inl (unsupported c)
      | Some client \<Rightarrow>
          (case client (token_address request) of
             Inl e \<Rightarrow> Inl e
           | Inr td \<Rightarrow>
               (case predict (price_model (net c)) td of
                  Inl e \<Rightarrow> Inl e
                | Inr mp \<Rightarrow>
                    (case risk_evaluate c td of
                       Inl e \<Rightarrow> Inl e
                     | Inr ra \<Rightarrow>
                         (case behavior_analyze c td of
                            Inl e \<Rightarrow> Inl e
                          | Inr recs \<Rightarrow>
                              Inr \<lparr>token_metadata = metadata td,
                                   market_performance = mp,
                                   risk_assessment = ra,
                                   recommendations = recs,
                                   timestamp = now c\<rparr>)))))"

text \<open>
  The \<^verbatim>\<open>except Exception as e\<close> clause of the route answers every exception of the body
  with \<^verbatim>\<open>HTTPException(status_code=500, detail=str(e))\<close>.
\<close>

definition analyze_token :: "collaborators \<Rightarrow> analysis_request \<Rightarrow> exn + analysis_response" where
  "analyze_token c request =
     (case analyze_try c request of
        Inl e \<Rightarrow> Inl (HTTPException 500 (str_exn e))
      | Inr r \<Rightarrow> Inr r)"

text \<open>The status code a caller of the route sees when it fails.\<close>

fun status_code :: "exn + analysis_response \<Rightarrow> nat option" where
  "status_code (Inl (HTTPException c m)) = Some c"
| "status_code (Inl e) = None"
| "status_code (Inr r) = None"

text \<open>A record with the three histories and nothing else.\<close>

definition histories :: "fp list \<Rightarrow> fp list \<Rightarrow> fp list \<Rightarrow> token_data" where
  "histories ps vs ls =
     \<lparr>metadata = [],
      series = [''price_history'' \<mapsto> ps, ''volume_history'' \<mapsto> vs, ''liquidity_data'' \<mapsto> ls]\<rparr>"

section \<open>Facts about the arithmetic\<close>

lemmas np_defs = np_mean_def np_sum_def np_diff_def np_log_def np_std_def fsub_def

lemma get_series_prices: "get_series (prices ps) ''price_history'' = ps"
  by (simp add: get_series_def prices_def)

lemma fadd_not_finite_left: "\<not> is_finite x \<Longrightarrow> \<not> is_finite (fadd x y)"
  by (cases x; cases y) simp_all

lemma fadd_not_finite_right: "\<not> is_finite y \<Longrightarrow> \<not> is_finite (fadd x y)"
  by (cases x; cases y) simp_all

lemma fsub_not_finite: "\<not> is_finite a \<or> \<not> is_finite b \<Longrightarrow> \<not> is_finite (fsub b a)"
  by (cases a; cases b) (simp_all add: fsub_def)

text \<open>A sum that meets a non-finite entry never becomes finite again.\<close>

lemma foldl_fadd_not_finite_acc:
  "\<not> is_finite acc \<Longrightarrow> \<not> is_finite (foldl fadd acc xs)"
  by (induction xs arbitrary: acc) (simp_all add: fadd_not_finite_left)

lemma foldl_fadd_not_finite:
  "x \<in> set xs \<Longrightarrow> \<not> is_finite x \<Longrightarrow> \<not> is_finite (foldl fadd acc xs)"
proof (induction xs arbitrary: acc)
  case Nil
  then show ?case by simp
next
  case (Cons y ys)
  show ?case
  proof (cases "x = y")
    case True
    with Cons.prems show ?thesis
      by (simp add: foldl_fadd_not_finite_acc fadd_not_finite_right)
  next
    case False
    with Cons show ?thesis by simp
  qed
qed

lemma foldl_fadd_NaN_acc: "foldl fadd NaN xs = NaN"
  by (induction xs) simp_all

lemma foldl_fadd_NaN: "NaN \<in> set xs \<Longrightarrow> foldl fadd acc xs = NaN"
proof (induction xs arbitrary: acc)
  case Nil
  then show ?case by simp
next
  case (Cons y ys)
  show ?case
  proof (cases "y = NaN")
    case True
    have "fadd acc NaN = NaN" by (cases acc) simp_all
    with True show ?thesis by (simp add: foldl_fadd_NaN_acc)
  next
    case False
    with Cons show ?thesis by simp
  qed
qed

text \<open>An infinite sum has an infinite summand of the same sign.\<close>

lemma foldl_fadd_PInf: "foldl fadd acc xs = PInf \<Longrightarrow> acc = PInf \<or> PInf \<in> set xs"
proof (induction xs arbitrary: acc)
  case Nil
  then show ?case by simp
next
  case (Cons y ys)
  from Cons.prems have "foldl fadd (fadd acc y) ys = PInf" by simp
  from Cons.IH [OF this] have "fadd acc y = PInf \<or> PInf \<in> set ys" .
  moreover have "fadd acc y = PInf \<Longrightarrow> acc = PInf \<or> y = PInf"
    by (cases acc; cases y) simp_all
  ultimately show ?case by auto
qed

lemma foldl_fadd_NInf: "foldl fadd acc xs = NInf \<Longrightarrow> acc = NInf \<or> NInf \<in> set xs"
proof (induction xs arbitrary: acc)
  case Nil
  then show ?case by simp
next
  case (Cons y ys)
  from Cons.prems have "foldl fadd (fadd acc y) ys = NInf" by simp
  from Cons.IH [OF this] have "fadd acc y = NInf \<or> NInf \<in> set ys" .
  moreover have "fadd acc y = NInf \<Longrightarrow> acc = NInf \<or> y = NInf"
    by (cases acc; cases y) simp_all
  ultimately show ?case by auto
qed

text \<open>The standard deviation of an array that holds a non-finite entry is NaN.\<close>

lemma np_std_not_finite:
  assumes "x \<in> set xs" and "\<not> is_finite x"
  shows "np_std xs = NaN"
proof -
  define m where "m = np_mean xs"
  have len: "0 < length xs" using assms(1) by (cases xs) auto
  have sum_nf: "\<not> is_finite (np_sum xs)"
    unfolding np_sum_def using assms by (rule foldl_fadd_not_finite)
  have dev: "NaN \<in> set (map (\<lambda>x. fsub x m) xs)"
  proof (cases "np_sum xs")
    case (Fin r)
    with sum_nf show ?thesis by simp
  next
    case PInf
    then have "PInf \<in> set xs"
      using foldl_fadd_PInf [of "Fin 0" xs] by (simp add: np_sum_def)
    moreover have "m = PInf"
      using PInf len by (simp add: m_def np_mean_def)
    ultimately have "fsub PInf m \<in> set (map (\<lambda>x. fsub x m) xs)" by force
    then show ?thesis using \<open>m = PInf\<close> by (simp add: fsub_def)
  next
    case NInf
    then have "NInf \<in> set xs"
      using foldl_fadd_NInf [of "Fin 0" xs] by (simp add: np_sum_def)
    moreover have "m = NInf"
      using NInf len by (simp add: m_def np_mean_def)
    ultimately have "fsub NInf m \<in> set (map (\<lambda>x. fsub x m) xs)" by force
    then show ?thesis using \<open>m = NInf\<close> by (simp add: fsub_def)
  next
    case NaN
    then have "m = NaN" by (simp add: m_def np_mean_def)
    have "fsub x m \<in> set (map (\<lambda>x. fsub x m) xs)" using assms(1) by force
    moreover have "fsub x NaN = NaN" by (cases x) (simp_all add: fsub_def)
    ultimately show ?thesis using \<open>m = NaN\<close> by simp
  qed
  have "fmul NaN NaN \<in> set (map (\<lambda>x. fmul x x) (map (\<lambda>x. fsub x m) xs))"
    using dev by force
  then have "NaN \<in> set (map (\<lambda>x. fmul x x) (map (\<lambda>x. fsub x m) xs))" by simp
  then have "np_sum (map (\<lambda>x. fmul x x) (map (\<lambda>x. fsub x m) xs)) = NaN"
    unfolding np_sum_def by (rule foldl_fadd_NaN)
  then have "np_mean (map (\<lambda>x. fmul x x) (map (\<lambda>x. fsub x m) xs)) = NaN"
    by (simp only: np_mean_def fdiv.simps)
  moreover have "np_std xs = fsqrt (np_mean (map (\<lambda>x. fmul x x) (map (\<lambda>x. fsub x m) xs)))"
    by (simp only: np_std_def Let_def m_def)
  ultimately show ?thesis by simp
qed

text \<open>A non-finite entry of an array of two or more shows in its differences.\<close>

lemma np_diff_not_finite:
  "x \<in> set xs \<Longrightarrow> \<not> is_finite x \<Longrightarrow> 2 \<le> length xs \<Longrightarrow> \<exists>d \<in> set (np_diff xs). \<not> is_finite d"
proof (induction xs)
  case Nil
  then show ?case by simp
next
  case (Cons y ys)
  from Cons.prems(3) obtain z zs where ys: "ys = z # zs" by (cases ys) auto
  have hd_diff: "fsub z y \<in> set (np_diff (y # ys))"
    by (simp add: np_diff_def ys)
  have tl_diff: "set (np_diff ys) \<subseteq> set (np_diff (y # ys))"
    by (auto simp add: np_diff_def ys)
  show ?case
  proof (cases "x = y \<or> x = z")
    case True
    with Cons.prems(2) have "\<not> is_finite (fsub z y)"
      using fsub_not_finite [of y z] by auto
    with hd_diff show ?thesis by blast
  next
    case False
    with Cons.prems(1) ys have "x \<in> set ys" and "2 \<le> length ys"
      by (cases zs; auto)+
    from Cons.IH [OF this(1) Cons.prems(2) this(2)] tl_diff show ?thesis by blast
  qed
qed

section \<open>Trend labels\<close>

text \<open>
  C3. The claim: a price history with fewer than two entries gets no trend label. The
  guard of \<^verbatim>\<open>_analyze_trends\<close> is \<^verbatim>\<open>len(price_history) > 0\<close>, so a history of one entry
  passes it: \<^verbatim>\<open>np.diff\<close> of one price is empty, its mean is NaN, both comparisons with NaN
  are false, and the \<^verbatim>\<open>else\<close> branch labels the record "Sideways Movement".
\<close>

theorem analyze_trends_one_entry:
  "analyze_trends (prices [Fin 100]) = [''Sideways Movement'']"
  by (simp add: analyze_trends_def get_series_prices recent_trend_def last5_def np_defs fgreater_def)



text \<open>
  C10. Whatever the record, the trend analysis returns at most one label: the list
  starts empty and each path through the function appends at most once.
\<close>

theorem analyze_trends_at_most_one: "length (analyze_trends td) \<le> 1"
  by (simp add: analyze_trends_def Let_def)

section \<open>Volatility\<close>

text \<open>
  C4, as the specification states it, fails. Two prices give one log-return, and
  \<^verbatim>\<open>np.std\<close> (the population standard deviation, \<open>ddof = 0\<close>) of a single number is
  \<open>0.0\<close>: for the history \<open>[1, 2]\<close> the volatility is \<open>0.0\<close>, not a positive value.
\<close>

theorem volatility_two_prices_counterexample:
  "calculate_volatility (prices [Fin 1, Fin 2]) = Fin 0
   \<and> \<not> fless (Fin 0) (calculate_volatility (prices [Fin 1, Fin 2]))"
  by (simp add: calculate_volatility_def get_series_prices np_defs Let_def)

text \<open>
  C4, amended. For every price history of exactly two positive prices, unequal or not,
  the volatility computation returns exactly \<open>0.0\<close>: a finite value, and not a
  strictly positive one.
\<close>

theorem volatility_two_positive_prices:
  assumes "get_series td ''price_history'' = [Fin a, Fin b]" and "0 < a" and "0 < b"
  shows "calculate_volatility td = Fin 0"
  using assms by (simp add: calculate_volatility_def np_defs Let_def)

theorem volatility_two_positive_prices_witness:
  "get_series (prices [Fin 3, Fin 5]) ''price_history'' = [Fin 3, Fin 5]
   \<and> (0::real) < 3 \<and> (0::real) < 5
   \<and> calculate_volatility (prices [Fin 3, Fin 5]) = Fin 0"
  using volatility_two_positive_prices [of "prices [Fin 3, Fin 5]" 3 5]
  by (simp add: get_series_prices)

text \<open>
  C5, as the specification states it, fails. Nothing in \<^verbatim>\<open>_calculate_volatility\<close> looks
  at the sign of a price: for the history \<open>[-1, 1]\<close> the logarithm of \<open>-1\<close> is NaN and
  the function returns NaN, not \<open>0.0\<close>.
\<close>

theorem volatility_nonpositive_counterexample:
  "calculate_volatility (prices [Fin (- 1), Fin 1]) = NaN
   \<and> calculate_volatility (prices [Fin (- 1), Fin 1]) \<noteq> Fin 0"
  by (simp add: calculate_volatility_def get_series_prices np_defs Let_def)

text \<open>
  C5, amended. The volatility computation returns exactly \<open>0.0\<close> whenever the price
  history has fewer than 2 entries. When it has 2 entries or more and one of the prices
  is zero or negative, so that its logarithm is minus infinity or undefined, the
  computation does not fail either, and it returns NaN.
\<close>

theorem volatility_short_or_undefined:
  assumes "ph = get_series td ''price_history''"
  shows "(length ph < 2 \<longrightarrow> calculate_volatility td = Fin 0)
       \<and> (2 \<le> length ph \<and> (\<exists>r. r \<le> 0 \<and> Fin r \<in> set ph) \<longrightarrow> calculate_volatility td = NaN)"
proof (intro conjI impI)
  assume "length ph < 2"
  then show "calculate_volatility td = Fin 0"
    using assms by (simp add: calculate_volatility_def Let_def)
next
  assume h: "2 \<le> length ph \<and> (\<exists>r. r \<le> 0 \<and> Fin r \<in> set ph)"
  then obtain r where r: "r \<le> 0" "Fin r \<in> set ph" by blast
  have "flog (Fin r) \<in> set (np_log ph)" using r(2) by (force simp add: np_log_def)
  moreover have "\<not> is_finite (flog (Fin r))" using r(1) by simp
  moreover have "2 \<le> length (np_log ph)" using h by (simp add: np_log_def)
  ultimately obtain d where "d \<in> set (np_diff (np_log ph))" "\<not> is_finite d"
    using np_diff_not_finite by blast
  then have "np_std (np_diff (np_log ph)) = NaN" by (rule np_std_not_finite)
  then show "calculate_volatility td = NaN"
    using assms h by (simp add: calculate_volatility_def Let_def)
qed

text \<open>The theorem at a history of one price, at the empty one, and at \<open>[0, 1]\<close>.\<close>

theorem volatility_short_or_undefined_witness:
  "calculate_volatility (prices [Fin 100]) = Fin 0
   \<and> calculate_volatility (prices []) = Fin 0
   \<and> calculate_volatility (prices [Fin 0, Fin 1]) = NaN"
proof -
  have a: "[Fin 100] = get_series (prices [Fin 100]) ''price_history''"
    by (simp add: get_series_prices)
  have b: "[] = get_series (prices []) ''price_history''"
    by (simp add: get_series_prices)
  have c: "[Fin 0, Fin 1] = get_series (prices [Fin 0, Fin 1]) ''price_history''"
    by (simp add: get_series_prices)
  have ex: "\<exists>r. r \<le> 0 \<and> Fin r \<in> set [Fin 0, Fin 1]"
    by (rule exI [of _ 0]) simp
  show ?thesis
    using volatility_short_or_undefined [OF a] volatility_short_or_undefined [OF b]
          volatility_short_or_undefined [OF c] ex
    by simp
qed

section \<open>Confidence\<close>

text \<open>
  C6. The claim: the confidence score, the logistic function of the standard deviation
  of the prediction, lies strictly between 0 and 1 and is never NaN. The prediction of
  \<^verbatim>\<open>LSTM.forward\<close> for one record is a tensor of shape \<open>[1, 1]\<close>, a single number \<open>v\<close>.
  \<^verbatim>\<open>Tensor.std()\<close> divides the squared deviations by \<open>n - 1 = 0\<close>: the standard
  deviation of a single number is NaN, and so is its sigmoid, whatever \<open>v\<close> is.
\<close>

theorem confidence_of_single_prediction: "calculate_confidence [[v]] = NaN"
  by (cases v) (simp_all add: calculate_confidence_def torch_std_def np_defs Let_def)

text \<open>Every prediction the model returns for a batch of one has that shape.\<close>

lemma price_model_single:
  "price_model w [features] = Inr p \<Longrightarrow> \<exists>v. p = [[v]]"
  by (auto simp add: price_model_def LSTM_forward_def split: if_splits)

section \<open>Feature extraction\<close>

lemma get_series_histories:
  "get_series (histories ps vs ls) ''price_history'' = ps"
  "get_series (histories ps vs ls) ''volume_history'' = vs"
  "get_series (histories ps vs ls) ''liquidity_data'' = ls"
  by (simp_all add: get_series_def histories_def)

text \<open>A normalized series is as long as the series; only the empty one becomes 10 zeros.\<close>

lemma length_normalize_np:
  "length (normalize_np xs) = (if xs = [] then 10 else length xs)"
  by (simp add: normalize_np_def np_zeros_def)

lemma column_stack_three:
  assumes "length b = length a" and "length c = length a"
  shows "column_stack [a, b, c] = Inr (map (\<lambda>i. [a ! i, b ! i, c ! i]) [0..<length a])"
  using assms by (simp add: column_stack_def)

lemma column_stack_three_mismatch:
  assumes "\<not> (length b = length a \<and> length c = length a)"
  shows "\<exists>msg. column_stack [a, b, c] = Inl (ValueError msg)"
  using assms by (auto simp add: column_stack_def)

lemma shape3_batch_of_rows:
  assumes "0 < n"
  shows "shape3 [map (\<lambda>i. [f i, g i, h i]) [0..<n]] = [1, n, 3]"
proof -
  from assms have "[0..<n] = 0 # [Suc 0..<n]"
    by (simp only: upt_conv_Cons)
  then have "map (\<lambda>i. [f i, g i, h i]) [0..<n]
      = [f 0, g 0, h 0] # map (\<lambda>i. [f i, g i, h i]) [Suc 0..<n]"
    by (simp only: list.map)
  moreover have "length (map (\<lambda>i. [f i, g i, h i]) [0..<n]) = n"
    by simp
  ultimately show ?thesis
    by (simp only: shape3_def list.case list.size length_map) simp
qed

text \<open>Three columns of one length stack into a matrix with that many rows.\<close>

lemma extract_features_stack:
  assumes "ph = get_series td ''price_history''"
    and "vh = get_series td ''volume_history''"
    and "ld = get_series td ''liquidity_data''"
    and "n = (if ph = [] then 10 else length ph)"
    and "(if vh = [] then 10 else length vh) = n"
    and "(if ld = [] then 10 else length ld) = n"
  shows "\<exists>m. extract_features td = Inr [m] \<and> shape3 [m] = [1, n, 3] \<and> length m = n
       \<and> (\<forall>i<n. m ! i = [normalize_np ph ! i, normalize_np vh ! i, normalize_np ld ! i])"
proof -
  let ?a = "normalize_np ph" and ?b = "normalize_np vh" and ?c = "normalize_np ld"
  let ?m = "map (\<lambda>i. [?a ! i, ?b ! i, ?c ! i]) [0..<n]"
  have la: "length ?a = n" and lb: "length ?b = n" and lc: "length ?c = n"
    using assms(4,5,6) by (simp_all add: length_normalize_np)
  have pos: "0 < n" using assms(4) by auto
  have "column_stack [?a, ?b, ?c] = Inr ?m"
    using column_stack_three [of ?b ?a ?c] la lb lc by simp
  then have "extract_features td = Inr [?m]"
    using assms(1,2,3) by (simp add: extract_features_def Let_def)
  moreover have "shape3 [?m] = [1, n, 3]"
    using pos by (rule shape3_batch_of_rows)
  moreover have "length ?m = n" by simp
  moreover have "\<forall>i<n. ?m ! i = [?a ! i, ?b ! i, ?c ! i]" by simp
  ultimately show ?thesis by blast
qed

text \<open>
  C1, as the specification states it, fails. \<^verbatim>\<open>_extract_features\<close> has no window: it
  neither pads nor truncates. Three histories of one entry each give a matrix of
  shape \<open>[1, 1, 3]\<close>, not \<open>[1, 10, 3]\<close>.
\<close>

theorem extract_features_padding_counterexample:
  "extract_features (histories [Fin 1] [Fin 1] [Fin 1]) = Inr [[[Fin 0, Fin 0, Fin 0]]]
   \<and> shape3 [[[Fin 0, Fin 0, Fin 0]]] = [1, 1, 3]
   \<and> shape3 [[[Fin 0, Fin 0, Fin 0]]] \<noteq> [1, 10, 3]"
  by (simp add: extract_features_def get_series_histories normalize_np_def normalize_divisor_def
      epsilon_def np_defs column_stack_def shape3_def Let_def)

text \<open>
  C1, amended. Count an empty series as 10 entries (it is replaced by 10 zeros) and any
  other series as its own length. When the three series have the same count \<open>n\<close>,
  feature extraction returns a matrix of shape \<open>[1, n, 3]\<close> whose row \<open>i\<close> holds entry
  \<open>i\<close> of the normalized price, volume and liquidity series: every entry is kept, none
  is padded or truncated, and \<open>n\<close> is 10 only for series that are empty or 10 long.
\<close>

theorem extract_features_shape:
  assumes "ph = get_series td ''price_history''"
    and "vh = get_series td ''volume_history''"
    and "ld = get_series td ''liquidity_data''"
    and "n = (if ph = [] then 10 else length ph)"
    and "(if vh = [] then 10 else length vh) = n"
    and "(if ld = [] then 10 else length ld) = n"
  shows "\<exists>m. extract_features td = Inr [m] \<and> shape3 [m] = [1, n, 3] \<and> length m = n
       \<and> (\<forall>i<n. m ! i = [normalize_np ph ! i, normalize_np vh ! i, normalize_np ld ! i])"
  using assms by (rule extract_features_stack)

text \<open>The theorem at three histories of two entries, and at three empty histories.\<close>

theorem extract_features_shape_witness:
  "map_sum id shape3 (extract_features (histories [Fin 1, Fin 3] [Fin 4, Fin 4] [Fin 2, Fin 7]))
     = Inr [1, 2, 3]
   \<and> map_sum id shape3 (extract_features (histories [] [] [])) = Inr [1, 10, 3]"
proof -
  have a: "\<exists>m. extract_features (histories [Fin 1, Fin 3] [Fin 4, Fin 4] [Fin 2, Fin 7]) = Inr [m]
            \<and> shape3 [m] = [1, 2, 3]"
    using extract_features_shape [of "[Fin 1, Fin 3]" "histories [Fin 1, Fin 3] [Fin 4, Fin 4] [Fin 2, Fin 7]"
        "[Fin 4, Fin 4]" "[Fin 2, Fin 7]" 2]
    by (simp add: get_series_histories) blast
  have b: "\<exists>m. extract_features (histories [] [] []) = Inr [m] \<and> shape3 [m] = [1, 10, 3]"
    using extract_features_shape [of "[]" "histories [] [] []" "[]" "[]" 10]
    by (simp add: get_series_histories) blast
  from a b show ?thesis by auto
qed

text \<open>
  When the counts differ, \<^verbatim>\<open>np.column_stack\<close> raises and no matrix is returned (inside
  \<^verbatim>\<open>predict\<close> the exception becomes the error dictionary).
\<close>

lemma extract_features_mismatch:
  assumes "ph = get_series td ''price_history''"
    and "vh = get_series td ''volume_history''"
    and "ld = get_series td ''liquidity_data''"
    and "n = (if ph = [] then 10 else length ph)"
    and "\<not> ((if vh = [] then 10 else length vh) = n \<and> (if ld = [] then 10 else length ld) = n)"
  shows "\<exists>msg. extract_features td = Inl (ValueError msg)"
proof -
  have "\<not> (length (normalize_np vh) = length (normalize_np ph)
          \<and> length (normalize_np ld) = length (normalize_np ph))"
    using assms(4,5) by (simp add: length_normalize_np)
  from column_stack_three_mismatch [OF this] show ?thesis
    using assms(1,2,3) by (auto simp add: extract_features_def Let_def)
qed

text \<open>Whatever is returned has three feature columns.\<close>

lemma extract_features_last_dim:
  assumes "extract_features td = Inr t"
  shows "shape3 t ! 2 = 3"
proof -
  let ?ph = "get_series td ''price_history''"
  let ?vh = "get_series td ''volume_history''"
  let ?ld = "get_series td ''liquidity_data''"
  define n where "n = (if ?ph = [] then 10 else length ?ph)"
  show ?thesis
  proof (cases "(if ?vh = [] then 10 else length ?vh) = n \<and> (if ?ld = [] then 10 else length ?ld) = n")
    case True
    from extract_features_stack [OF refl refl refl n_def] True assms
    show ?thesis by auto
  next
    case False
    from extract_features_mismatch [OF refl refl refl n_def False] assms
    show ?thesis by auto
  qed
qed

section \<open>Normalization\<close>








section \<open>The prediction never raises\<close>

text \<open>
  C2. For every record and whatever the scoring model does (return any tensor, or
  raise), \<^verbatim>\<open>predict\<close> returns a dictionary, and that dictionary is a well-formed
  PredictionResult or a well-formed ErrorResult: no exception leaves it.
\<close>

theorem predict_never_raises:
  "\<exists>d. predict model td = Inr d \<and> (is_PredictionResult d \<or> is_ErrorResult d)"
  by (auto simp add: predict_def predict_try_def is_PredictionResult_def is_ErrorResult_def
      split: sum.splits)

text \<open>
  With the model the class builds, the answer is always the ErrorResult: the features
  have 3 columns and \<^verbatim>\<open>LSTM(input_size=10, ...)\<close> refuses them.
\<close>

lemma predict_price_model_fails:
  "\<exists>msg. predict (price_model w) td =
     Inr [(''error'', PStr ''Price prediction failed''), (''details'', PStr msg)]"
proof (cases "extract_features td")
  case (Inl e)
  then show ?thesis by (simp add: predict_def predict_try_def)
next
  case (Inr t)
  then have "shape3 t ! 2 = 3" by (rule extract_features_last_dim)
  then have "\<exists>e. price_model w t = Inl e"
    by (simp add: price_model_def LSTM_forward_def)
  with Inr show ?thesis by (auto simp add: predict_def predict_try_def)
qed

section \<open>Unsupported chains\<close>

text \<open>
  C9. The claim: a request for a chain outside solana, ethereum and cosmos is rejected
  before any analysis runs, as a validation failure that a caller can tell from an
  analysis failure. The route does stop before any analysis, and line 64 asks for
  status 400, but the \<^verbatim>\<open>raise\<close> stands inside the \<^verbatim>\<open>try\<close> block: the
  \<^verbatim>\<open>except Exception\<close> clause catches it and answers with status 500, as it does for
  every failure of the pipeline.
\<close>

theorem unsupported_chain_answer:
  "analyze_token c \<lparr>token_address = ''0xabc'', chain_type = ''polkadot'', analysis_type = [''price'']\<rparr>
     = Inl (HTTPException 500 (str_exn (unsupported c)))
   \<and> status_code (analyze_token c
        \<lparr>token_address = ''0xabc'', chain_type = ''polkadot'', analysis_type = [''price'']\<rparr>)
     = Some 500"
  by (simp add: analyze_token_def analyze_try_def clients_def)

text \<open>The same holds for every chain outside the three, and for every failure.\<close>

lemma unsupported_chain_rejected:
  "chain_type r \<notin> {''solana'', ''ethereum'', ''cosmos''} \<Longrightarrow>
     analyze_token c r = Inl (HTTPException 500 (str_exn (unsupported c)))"
  by (simp add: analyze_token_def analyze_try_def clients_def)

lemma analyze_token_failure_status:
  "analyze_token c r = Inl e \<Longrightarrow> status_code (analyze_token c r) = Some 500"
  by (auto simp add: analyze_token_def split: sum.splits)

lemma provider_failure_answer:
  "solana_client c a = Inl e \<Longrightarrow>
   analyze_token c \<lparr>token_address = a, chain_type = ''solana'', analysis_type = ts\<rparr>
     = Inl (HTTPException 500 (str_exn e))"
  by (simp add: analyze_token_def analyze_try_def clients_def)

end
